theory Spec2Isabelle
  imports Complex_Main
begin

section \<open>Python values shared by the modules\<close>

text \<open>
  Python floats are modelled as exact rationals (\<open>rat\<close>): sums and comparisons are the
  exact ones, and \<open>round(x, n)\<close> is rounding to \<open>n\<close> decimal places with ties to even.
  Python \<open>str\<close> is \<open>string\<close>, one \<open>char\<close> standing for one character, so that
  \<open>length\<close> is Python's \<open>len\<close>.
\<close>

datatype json =
    JNull
  | JBool bool
  | JNum rat
  | JStr string
  | JArr "json list"
  | JObj "(string \<times> json) list"

text \<open>The exceptions the code raises or lets through, with the message of \<open>str(e)\<close>.\<close>

datatype py_error =
    ValueError string
  | RuntimeError string
  | JSONDecodeError string
  | KeyError string
  | IndexError
  | TypeError
  | AttributeError
  | OperationalError

definition py_round :: "rat \<Rightarrow> nat \<Rightarrow> rat" where
  "py_round x ndigits =
     (let scale = 10 ^ ndigits;
          y = x * scale;
          f = \<lfloor>y\<rfloor>;
          d = y - of_int f;
          n = (if d < 1 / 2 then f
               else if 1 / 2 < d then f + 1
               else if even f then f else f + 1)
      in of_int n / scale)"

section \<open>database.py: the cost ledger\<close>

definition VALID_PERIODS :: "string list" where
  "VALID_PERIODS = [''today'', ''week'', ''month'', ''all'']"

text \<open>
  One row of table \<open>requests\<close>. \<open>timestamp\<close> is SQLite's \<open>CURRENT_TIMESTAMP\<close>, kept as
  the number of seconds since 1970-01-01 00:00:00; the text form
  \<open>YYYY-MM-DD HH:MM:SS\<close> that SQLite stores and compares has the same order.
\<close>

record request_row =
  row_id :: nat
  timestamp :: nat
  tool_name :: string
  cost_usd :: rat
  input_tokens :: json
  output_tokens :: json
  file_path :: "string option"

type_synonym ledger = "request_row list"

text \<open>\<open>tokens.get(key, 0)\<close> on the token dict.\<close>

definition tokens_get :: "(string \<rightharpoonup> json) \<Rightarrow> string \<Rightarrow> json" where
  "tokens_get tokens key = (case tokens key of None \<Rightarrow> JNum 0 | Some v \<Rightarrow> v)"

text \<open>
  \<open>log_request\<close>: one INSERT. \<open>insert_fails\<close> says that SQLite raises on it (store
  unreachable or unwritable); \<open>utc_now\<close> is the store's clock. The id is the
  AUTOINCREMENT one: above every id in the table.
\<close>

definition next_row_id :: "ledger \<Rightarrow> nat" where
  "next_row_id rows = Suc (fold max (map row_id rows) 0)"

definition log_request ::
  "bool \<Rightarrow> nat \<Rightarrow> ledger \<Rightarrow> string \<Rightarrow> rat \<Rightarrow> (string \<rightharpoonup> json) \<Rightarrow> string option
     \<Rightarrow> py_error + ledger" where
  "log_request insert_fails utc_now rows tool cost tokens path =
     (if insert_fails then Inl OperationalError
      else Inr (rows @
        [\<lparr>row_id = next_row_id rows, timestamp = utc_now, tool_name = tool,
          cost_usd = cost, input_tokens = tokens_get tokens ''input'',
          output_tokens = tokens_get tokens ''output'', file_path = path\<rparr>]))"

text \<open>
  The start of the window, from \<open>datetime.now()\<close> (seconds, local wall clock):
  midnight of today, seven days back, thirty days back, or 1970-01-01.
\<close>

definition start_date :: "int \<Rightarrow> string \<Rightarrow> int" where
  "start_date now period =
     (if period = ''today'' then now - now mod 86400
      else if period = ''week'' then now - 7 * 86400
      else if period = ''month'' then now - 30 * 86400
      else 0)"

text \<open>\<open>date(timestamp)\<close>: the day number.\<close>

definition date_of :: "request_row \<Rightarrow> nat" where
  "date_of r = timestamp r div 86400"

text \<open>The WHERE clause: \<open>timestamp >= ?\<close>, and \<open>tool_name = ?\<close> when \<open>tool_filter\<close> is truthy.\<close>

definition selected :: "ledger \<Rightarrow> int \<Rightarrow> string option \<Rightarrow> ledger" where
  "selected rows start tool_filter =
     filter (\<lambda>r. start \<le> int (timestamp r) \<and>
                 (case tool_filter of
                    None \<Rightarrow> True
                  | Some t \<Rightarrow> t = [] \<or> tool_name r = t)) rows"

record breakdown_row =
  b_date :: nat
  b_tool :: string
  b_requests :: nat
  b_cost :: rat

definition group_key :: "request_row \<Rightarrow> nat \<times> string" where
  "group_key r = (date_of r, tool_name r)"

text \<open>
  \<open>GROUP BY date(timestamp), tool_name\<close> with \<open>COUNT( * )\<close> and \<open>SUM(cost_usd)\<close>,
  then \<open>ORDER BY date DESC\<close> (a stable sort on the day, descending).
\<close>

definition group_rows :: "ledger \<Rightarrow> breakdown_row list" where
  "group_rows sel =
     map (\<lambda>k. \<lparr>b_date = fst k, b_tool = snd k,
                b_requests = length (filter (\<lambda>r. group_key r = k) sel),
                b_cost = sum_list (map cost_usd (filter (\<lambda>r. group_key r = k) sel))\<rparr>)
         (remdups (map group_key sel))"

definition query_rows :: "ledger \<Rightarrow> int \<Rightarrow> string option \<Rightarrow> breakdown_row list" where
  "query_rows rows start tool_filter =
     sort_key (\<lambda>g. - int (b_date g)) (group_rows (selected rows start tool_filter))"

record report =
  total_requests :: nat
  total_cost_usd :: rat
  breakdown :: "breakdown_row list"

definition invalid_period_message :: "string \<Rightarrow> string" where
  "invalid_period_message period =
     ''Invalid period '' @ [CHR 0x27] @ period @ [CHR 0x27] @
     ''. Must be one of: today, week, month, all''"

definition get_report :: "ledger \<Rightarrow> int \<Rightarrow> string \<Rightarrow> string option \<Rightarrow> py_error + report" where
  "get_report rows now period tool_filter =
     (if period \<notin> set VALID_PERIODS then Inl (ValueError (invalid_period_message period))
      else
        let out = query_rows rows (start_date now period) tool_filter;
            total_cost = sum_list (map b_cost out);
            total_reqs = sum_list (map b_requests out)
        in Inr \<lparr>total_requests = total_reqs,
                total_cost_usd = py_round total_cost 6,
                breakdown = map (\<lambda>g. g\<lparr>b_cost := py_round (b_cost g) 6\<rparr>) out\<rparr>)"

definition check_cost_limit :: "ledger \<Rightarrow> int \<Rightarrow> string \<Rightarrow> rat \<Rightarrow> py_error + bool" where
  "check_cost_limit rows now period limit_usd =
     (case get_report rows now period None of
        Inl e \<Rightarrow> Inl e
      | Inr rep \<Rightarrow> Inr (total_cost_usd rep < limit_usd))"

section \<open>deepseek.py: the upstream client\<close>

definition MAX_CODE_LENGTH :: nat where
  "MAX_CODE_LENGTH = 100000"

definition MAX_DESCRIPTION_LENGTH :: nat where
  "MAX_DESCRIPTION_LENGTH = 10000"

text \<open>
  The \<open>arguments\<close> dict of a tool call, with values typed as the tool schemas declare
  them: string entries under their keys (a missing key is \<open>None\<close>), and the one array
  entry \<open>focus_areas\<close>.
\<close>

record arguments =
  str_fields :: "string \<rightharpoonup> string"
  focus_areas :: "string list option"

text \<open>Decimal rendering of a number in an f-string.\<close>

fun show_nat :: "nat \<Rightarrow> string" where
  "show_nat n =
     (if n < 10 then [''0123456789'' ! n]
      else show_nat (n div 10) @ [''0123456789'' ! (n mod 10)])"

declare show_nat.simps [simp del]

text \<open>\<open>sep.join(parts)\<close>.\<close>

fun py_join :: "string \<Rightarrow> string list \<Rightarrow> string" where
  "py_join sep [] = []"
| "py_join sep [p] = p"
| "py_join sep (p # q # ps) = p @ sep @ py_join sep (q # ps)"

definition nl :: string where
  "nl = [CHR 0x0A]"

definition GENERATE_SYSTEM_PROMPT :: "string \<Rightarrow> string" where
  \<open>GENERATE_SYSTEM_PROMPT language = py_join nl
     [''You are a code generation specialist. Write clean, working code.'',
      [],
      ''RULES:'',
      ''1. Return ONLY a JSON object with keys "code" and "explanation"'',
      ''2. Code must be complete, runnable, and follow best practices for '' @ language,
      ''3. Explanation must be brief (1-2 sentences) describing key decisions'',
      ''4. No markdown formatting, no code fences, no prose outside JSON'',
      ''5. If unsure, make reasonable assumptions and document in explanation'',
      [],
      ''OUTPUT FORMAT:'',
      ''{"code": "...", "explanation": "..."}'']\<close>

text \<open>The edit prompt is returned as it is written, without \<open>format\<close>: its braces stay doubled.\<close>

definition EDIT_SYSTEM_PROMPT :: string where
  \<open>EDIT_SYSTEM_PROMPT = py_join nl
     [''You are a code editing specialist. Modify existing code as requested.'',
      [],
      ''RULES:'',
      ''1. Return ONLY a JSON object with keys "code" and "explanation"'',
      ''2. The "code" field must contain the complete modified code'',
      ''3. Preserve the original code'' @ [CHR 0x27] @ ''s style and conventions'',
      ''4. Explanation must be brief (1-2 sentences) describing what changed'',
      ''5. No markdown formatting, no code fences, no prose outside JSON'',
      [],
      ''OUTPUT FORMAT:'',
      ''{{"code": "...", "explanation": "..."}}'']\<close>

definition REVIEW_SYSTEM_PROMPT :: "string \<Rightarrow> string" where
  \<open>REVIEW_SYSTEM_PROMPT focus = py_join nl
     [''You are a code reviewer. Analyze the provided code for issues.'',
      [],
      ''Focus areas: '' @ focus,
      [],
      ''Return JSON with:'',
      ''- "code": (original code unchanged)'',
      ''- "explanation": summary of findings'',
      ''- "suggestions": array of specific improvements'']\<close>

text \<open>The settings \<open>DeepSeekClient.__init__\<close> keeps.\<close>

record secrets =
  openrouter_api_key :: "string option"
  worker_model :: "string option"
  zdr_enabled :: "bool option"
  preferred_providers :: "string list option"
  cost_limits :: "(string \<rightharpoonup> rat) option"

record client =
  api_key :: string
  model :: string
  zdr :: bool
  providers :: "string list"

definition DeepSeekClient_init :: "secrets \<Rightarrow> py_error + client" where
  "DeepSeekClient_init s =
     (case openrouter_api_key s of
        None \<Rightarrow> Inl (ValueError ''openrouter_api_key is required in secrets'')
      | Some k \<Rightarrow>
          if k = [] then Inl (ValueError ''openrouter_api_key is required in secrets'')
          else Inr \<lparr>api_key = k,
                    model = (case worker_model s of None \<Rightarrow> ''deepseek/deepseek-v3.2'' | Some m \<Rightarrow> m),
                    zdr = (case zdr_enabled s of None \<Rightarrow> True | Some z \<Rightarrow> z),
                    providers = (case preferred_providers s of None \<Rightarrow> [] | Some ps \<Rightarrow> ps)\<rparr>)"

text \<open>
  \<open>_validate_inputs\<close>: the two loops over the keys. \<open>arguments.get(key, "")\<close> is the
  empty string for a missing key, and an empty value is skipped.
\<close>

fun check_lengths :: "arguments \<Rightarrow> nat \<Rightarrow> string list \<Rightarrow> py_error + unit" where
  "check_lengths args limit [] = Inr ()"
| "check_lengths args limit (key # keys) =
     (let v = (case str_fields args key of None \<Rightarrow> [] | Some s \<Rightarrow> s)
      in if v \<noteq> [] \<and> limit < length v
         then Inl (ValueError (key @ '' exceeds maximum length of '' @ show_nat limit @ '' characters''))
         else check_lengths args limit keys)"

definition validate_inputs :: "arguments \<Rightarrow> string \<Rightarrow> py_error + unit" where
  "validate_inputs args tool =
     (case check_lengths args MAX_CODE_LENGTH [''code'', ''original_code'', ''context''] of
        Inl e \<Rightarrow> Inl e
      | Inr _ \<Rightarrow> check_lengths args MAX_DESCRIPTION_LENGTH [''task_description'', ''change_request''])"

definition get_or :: "arguments \<Rightarrow> string \<Rightarrow> string \<Rightarrow> string" where
  "get_or args key dflt = (case str_fields args key of None \<Rightarrow> dflt | Some v \<Rightarrow> v)"

text \<open>\<open>if arguments.get(key):\<close> for a string entry.\<close>

definition truthy :: "arguments \<Rightarrow> string \<Rightarrow> bool" where
  "truthy args key = (case str_fields args key of None \<Rightarrow> False | Some v \<Rightarrow> v \<noteq> [])"

definition get_system_prompt :: "string \<Rightarrow> arguments \<Rightarrow> string" where
  "get_system_prompt tool args =
     (if tool = ''generate_code'' then GENERATE_SYSTEM_PROMPT (get_or args ''language'' ''python'')
      else if tool = ''edit_code'' then EDIT_SYSTEM_PROMPT
      else if tool = ''review_code'' then
        REVIEW_SYSTEM_PROMPT (py_join '', ''
          (case focus_areas args of
             None \<Rightarrow> [''performance'', ''security'', ''readability'']
           | Some fs \<Rightarrow> fs))
      else ''You are a helpful coding assistant.'')"

text \<open>
  \<open>_build_user_prompt\<close>. \<open>arguments[key]\<close> raises KeyError for a missing key;
  \<open>dmp\<close> stands for \<open>json.dumps\<close> of the standard library.
\<close>

definition build_user_prompt ::
  "(arguments \<Rightarrow> string) \<Rightarrow> arguments \<Rightarrow> string \<Rightarrow> py_error + string" where
  "build_user_prompt dmp args tool =
     (if tool = ''generate_code'' then
        (case str_fields args ''task_description'' of
           None \<Rightarrow> Inl (KeyError ''task_description'')
         | Some task \<Rightarrow>
             Inr (py_join nl
               ([''Task: '' @ task, ''Language: '' @ get_or args ''language'' ''python''] @
                (if truthy args ''file_path''
                 then [''Target file: '' @ get_or args ''file_path'' []] else []) @
                (if truthy args ''context''
                 then [''Context:'' @ nl @ get_or args ''context'' []] else []))))
      else if tool = ''edit_code'' then
        (case str_fields args ''original_code'' of
           None \<Rightarrow> Inl (KeyError ''original_code'')
         | Some original \<Rightarrow>
             (case str_fields args ''change_request'' of
                None \<Rightarrow> Inl (KeyError ''change_request'')
              | Some change \<Rightarrow>
                  Inr (py_join nl
                    ([''Original code:'' @ nl @ ''```'' @ nl @ original @ nl @ ''```'',
                      ''Change request: '' @ change,
                      ''Language: '' @ get_or args ''language'' ''python''] @
                     (if truthy args ''file_path''
                      then [''File: '' @ get_or args ''file_path'' []] else [])))))
      else if tool = ''review_code'' then
        (case str_fields args ''code'' of
           None \<Rightarrow> Inl (KeyError ''code'')
         | Some c \<Rightarrow>
             Inr (py_join nl
               ([''Code to review:'' @ nl @ ''```'' @ nl @ c @ nl @ ''```''] @
                (case focus_areas args of
                   None \<Rightarrow> []
                 | Some fs \<Rightarrow> if fs = [] then [] else [''Focus on: '' @ py_join '', '' fs]))))
      else Inr (dmp args))"

text \<open>The request body posted to \<open>/chat/completions\<close>.\<close>

record payload =
  p_model :: string
  p_system :: string
  p_user :: string
  p_provider_order :: "string list"
  p_require_zdr :: bool
  p_reasoning :: bool

text \<open>
  What the HTTP client gives back: no response at all (\<open>httpx.RequestError\<close>), or a
  response with its status code and body text.
\<close>

datatype http_outcome = RequestError | Response nat string

text \<open>
  The world outside the program: the upstream API (\<open>post\<close>), the JSON decoder and
  encoder of the standard library (\<open>loads\<close> gives the decoder's message when the text is
  not JSON), the clock read by \<open>datetime.now()\<close>, the clock of the store, and whether
  the store refuses the next INSERT.
\<close>

record env =
  post :: "payload \<Rightarrow> http_outcome"
  loads :: "string \<Rightarrow> string + json"
  dumps :: "arguments \<Rightarrow> string"
  now :: int
  utc_now :: nat
  insert_fails :: bool

text \<open>
  Python subscripting and \<open>dict.get\<close> on decoded JSON. A \<open>JObj\<close> lists the items of a
  dict (its keys are strings, so the integer key 0 is never found).
\<close>

fun subscript_key :: "json \<Rightarrow> string \<Rightarrow> py_error + json" where
  "subscript_key (JObj kvs) key =
     (case map_of kvs key of None \<Rightarrow> Inl (KeyError key) | Some v \<Rightarrow> Inr v)"
| "subscript_key _ key = Inl TypeError"

fun subscript_0 :: "json \<Rightarrow> py_error + json" where
  "subscript_0 (JArr []) = Inl IndexError"
| "subscript_0 (JArr (x # xs)) = Inr x"
| "subscript_0 (JStr []) = Inl IndexError"
| "subscript_0 (JStr (c # cs)) = Inr (JStr [c])"
| "subscript_0 (JObj kvs) = Inl (KeyError ''0'')"
| "subscript_0 _ = Inl TypeError"

fun dict_get :: "json \<Rightarrow> string \<Rightarrow> json \<Rightarrow> py_error + json" where
  "dict_get (JObj kvs) key dflt =
     Inr (case map_of kvs key of None \<Rightarrow> dflt | Some v \<Rightarrow> v)"
| "dict_get _ key dflt = Inl AttributeError"

text \<open>A token count used in arithmetic: a number, or a bool counting as 0 or 1.\<close>

fun as_number :: "json \<Rightarrow> py_error + rat" where
  "as_number (JNum r) = Inr r"
| "as_number (JBool b) = Inr (if b then 1 else 0)"
| "as_number _ = Inl TypeError"

definition calculate_cost :: "json \<Rightarrow> py_error + rat" where
  "calculate_cost usage =
     (case dict_get usage ''prompt_tokens'' (JNum 0) of
        Inl e \<Rightarrow> Inl e
      | Inr input_toks \<Rightarrow>
     (case dict_get usage ''completion_tokens'' (JNum 0) of
        Inl e \<Rightarrow> Inl e
      | Inr output_toks \<Rightarrow>
     (case as_number input_toks of
        Inl e \<Rightarrow> Inl e
      | Inr i \<Rightarrow>
     (case as_number output_toks of
        Inl e \<Rightarrow> Inl e
      | Inr out \<Rightarrow>
          let input_cost = (i / 1000000) * (25 / 100);
              output_cost = (out / 1000000) * (38 / 100)
          in Inr (py_round (input_cost + output_cost) 6)))))"

record call_result =
  r_code :: json
  r_explanation :: json
  r_suggestions :: json
  r_cost_usd :: rat
  r_tokens_input :: json
  r_tokens_output :: json

text \<open>
  The body of the second \<open>try\<close>: first \<open>data["choices"][0]["message"]["content"]\<close>,
  then \<open>json.loads\<close> of it, which wants a \<open>str\<close>.
\<close>

definition raw_content_of :: "json \<Rightarrow> py_error + json" where
  "raw_content_of data =
     (case subscript_key data ''choices'' of
        Inl e \<Rightarrow> Inl e
      | Inr choices \<Rightarrow>
     (case subscript_0 choices of
        Inl e \<Rightarrow> Inl e
      | Inr choice \<Rightarrow>
     (case subscript_key choice ''message'' of
        Inl e \<Rightarrow> Inl e
      | Inr message \<Rightarrow> subscript_key message ''content'')))"

definition read_content :: "(string \<Rightarrow> string + json) \<Rightarrow> json \<Rightarrow> py_error + json" where
  "read_content lds data =
     (case raw_content_of data of
        Inl e \<Rightarrow> Inl e
      | Inr raw_content \<Rightarrow>
     (case raw_content of
        JStr s \<Rightarrow> (case lds s of Inl msg \<Rightarrow> Inl (JSONDecodeError msg) | Inr content \<Rightarrow> Inr content)
      | _ \<Rightarrow> Inl TypeError))"

text \<open>\<open>except (KeyError, IndexError, json.JSONDecodeError)\<close>.\<close>

fun malformed :: "py_error \<Rightarrow> bool" where
  "malformed (KeyError k) = True"
| "malformed IndexError = True"
| "malformed (JSONDecodeError m) = True"
| "malformed _ = False"

definition parse_response :: "(string \<Rightarrow> string + json) \<Rightarrow> string \<Rightarrow> py_error + call_result" where
  "parse_response lds body =
     (case lds body of
        Inl msg \<Rightarrow> Inl (JSONDecodeError msg)
      | Inr data \<Rightarrow>
     (case read_content lds data of
        Inl e \<Rightarrow>
          if malformed e then Inl (RuntimeError ''DeepSeek returned an unparseable response'')
          else Inl e
      | Inr content \<Rightarrow>
     (case dict_get data ''usage'' (JObj []) of
        Inl e \<Rightarrow> Inl e
      | Inr usage \<Rightarrow>
     (case calculate_cost usage of
        Inl e \<Rightarrow> Inl e
      | Inr cost \<Rightarrow>
     (case dict_get content ''code'' (JStr []) of
        Inl e \<Rightarrow> Inl e
      | Inr c \<Rightarrow>
     (case dict_get content ''explanation'' (JStr []) of
        Inl e \<Rightarrow> Inl e
      | Inr ex \<Rightarrow>
     (case dict_get content ''suggestions'' (JArr []) of
        Inl e \<Rightarrow> Inl e
      | Inr sg \<Rightarrow>
     (case dict_get usage ''prompt_tokens'' (JNum 0) of
        Inl e \<Rightarrow> Inl e
      | Inr ti \<Rightarrow>
     (case dict_get usage ''completion_tokens'' (JNum 0) of
        Inl e \<Rightarrow> Inl e
      | Inr tout \<Rightarrow>
          Inr \<lparr>r_code = c, r_explanation = ex, r_suggestions = sg, r_cost_usd = cost,
                r_tokens_input = ti, r_tokens_output = tout\<rparr>)))))))))"

text \<open>
  \<open>DeepSeekClient.call\<close>. The second component is the log of the requests posted so
  far: a request is added exactly when \<open>post\<close> is reached. A status outside 200..299
  makes \<open>raise_for_status\<close> raise.
\<close>

definition call ::
  "env \<Rightarrow> client \<Rightarrow> arguments \<Rightarrow> string \<Rightarrow> payload list
     \<Rightarrow> (py_error + call_result) \<times> payload list" where
  "call e c args tool sent =
     (case validate_inputs args tool of
        Inl err \<Rightarrow> (Inl err, sent)
      | Inr _ \<Rightarrow>
     (let system_prompt = get_system_prompt tool args in
      case build_user_prompt (dumps e) args tool of
        Inl err \<Rightarrow> (Inl err, sent)
      | Inr user_prompt \<Rightarrow>
     (let request = \<lparr>p_model = model c, p_system = system_prompt, p_user = user_prompt,
                      p_provider_order = providers c, p_require_zdr = zdr c,
                      p_reasoning = (tool = ''review_code'')\<rparr>;
          sent' = sent @ [request]
      in case post e request of
           RequestError \<Rightarrow> (Inl (RuntimeError ''Failed to connect to OpenRouter API''), sent')
         | Response status body \<Rightarrow>
             if \<not> (200 \<le> status \<and> status \<le> 299)
             then (Inl (RuntimeError (''OpenRouter API returned '' @ show_nat status)), sent')
             else (parse_response (loads e) body, sent'))))"

section \<open>server.py: the broker\<close>

text \<open>A tool of \<open>_build_tool_list\<close>: its name, its properties and the required ones.\<close>

record tool_schema =
  t_name :: string
  t_properties :: "string list"
  t_required :: "string list"

definition build_tool_list :: "tool_schema list" where
  "build_tool_list =
     [\<lparr>t_name = ''generate_code'',
       t_properties = [''file_path'', ''task_description'', ''language'', ''context''],
       t_required = [''task_description'', ''language'']\<rparr>,
      \<lparr>t_name = ''edit_code'',
       t_properties = [''file_path'', ''original_code'', ''change_request'', ''language''],
       t_required = [''original_code'', ''change_request'', ''language'']\<rparr>,
      \<lparr>t_name = ''review_code'',
       t_properties = [''code'', ''focus_areas''],
       t_required = [''code'']\<rparr>,
      \<lparr>t_name = ''get_cost_report'',
       t_properties = [''period'', ''tool''],
       t_required = [''period'']\<rparr>]"

text \<open>The dict handed to \<open>json.dumps\<close> for the single \<open>TextContent\<close> of an answer.\<close>

datatype response =
    ErrorPayload string
  | LimitPayload string rat
  | ResultPayload call_result
  | ReportPayload report

text \<open>What a call can change: the ledger, and the log of upstream requests.\<close>

record server_state =
  db :: ledger
  posts :: "payload list"

definition daily_limit :: "secrets \<Rightarrow> rat" where
  "daily_limit s =
     (case cost_limits s of
        None \<Rightarrow> 10
      | Some m \<Rightarrow> (case m ''daily_usd'' of None \<Rightarrow> 10 | Some v \<Rightarrow> v))"

definition monthly_limit :: "secrets \<Rightarrow> rat" where
  "monthly_limit s =
     (case cost_limits s of
        None \<Rightarrow> 50
      | Some m \<Rightarrow> (case m ''monthly_usd'' of None \<Rightarrow> 50 | Some v \<Rightarrow> v))"

text \<open>\<open>except (ValueError, RuntimeError)\<close>, with \<open>str(e)\<close>; JSONDecodeError is a ValueError.\<close>

fun caught_message :: "py_error \<Rightarrow> string option" where
  "caught_message (ValueError m) = Some m"
| "caught_message (RuntimeError m) = Some m"
| "caught_message (JSONDecodeError m) = Some m"
| "caught_message _ = None"

definition handle_deepseek_call ::
  "env \<Rightarrow> secrets \<Rightarrow> client \<Rightarrow> server_state \<Rightarrow> string \<Rightarrow> arguments
     \<Rightarrow> (py_error + response) \<times> server_state" where
  "handle_deepseek_call e s c st tool args =
     (case check_cost_limit (db st) (now e) ''today'' (daily_limit s) of
        Inl err \<Rightarrow> (Inl err, st)
      | Inr daily_ok \<Rightarrow>
     if \<not> daily_ok then (Inr (LimitPayload ''Daily cost limit exceeded'' (daily_limit s)), st)
     else
     (case check_cost_limit (db st) (now e) ''month'' (monthly_limit s) of
        Inl err \<Rightarrow> (Inl err, st)
      | Inr monthly_ok \<Rightarrow>
     if \<not> monthly_ok then (Inr (LimitPayload ''Monthly cost limit exceeded'' (monthly_limit s)), st)
     else
     (case call e c args tool (posts st) of
        (Inl err, sent) \<Rightarrow>
          (case caught_message err of
             Some m \<Rightarrow> (Inr (ErrorPayload m), st\<lparr>posts := sent\<rparr>)
           | None \<Rightarrow> (Inl err, st\<lparr>posts := sent\<rparr>))
      | (Inr result, sent) \<Rightarrow>
          (case log_request (insert_fails e) (utc_now e) (db st) tool (r_cost_usd result)
                  [''input'' \<mapsto> r_tokens_input result, ''output'' \<mapsto> r_tokens_output result]
                  (str_fields args ''file_path'') of
             Inl err \<Rightarrow> (Inl err, st\<lparr>posts := sent\<rparr>)
           | Inr db' \<Rightarrow> (Inr (ResultPayload result), st\<lparr>db := db', posts := sent\<rparr>)))))"

definition handle_cost_report :: "env \<Rightarrow> server_state \<Rightarrow> arguments \<Rightarrow> py_error + response" where
  "handle_cost_report e st args =
     (let period = get_or args ''period'' ''today'';
          tool_filter = str_fields args ''tool''
      in case get_report (db st) (now e) period tool_filter of
           Inl err \<Rightarrow> Inl err
         | Inr rep \<Rightarrow> Inr (ReportPayload rep))"

definition handle_tool_call ::
  "env \<Rightarrow> secrets \<Rightarrow> client \<Rightarrow> server_state \<Rightarrow> string \<Rightarrow> arguments
     \<Rightarrow> (py_error + response) \<times> server_state" where
  "handle_tool_call e s c st name args =
     (if name \<in> set [''generate_code'', ''edit_code'', ''review_code'']
      then handle_deepseek_call e s c st name args
      else if name = ''get_cost_report'' then (handle_cost_report e st args, st)
      else (Inr (ErrorPayload (''Unknown tool: '' @ name)), st))"

section \<open>Sequences of calls and example inputs\<close>


text \<open>
  The inputs of the repository's tests: the client settings and limits of the server
  fixture, and the arguments of its generate calls.
\<close>

definition example_client :: client where
  "example_client =
     \<lparr>api_key = ''sk-or-v1-test'', model = ''deepseek/deepseek-v3.2'', zdr = True,
      providers = [''Together'']\<rparr>"

definition example_secrets :: "rat \<Rightarrow> rat \<Rightarrow> secrets" where
  "example_secrets daily monthly =
     \<lparr>openrouter_api_key = Some ''sk-or-v1-test'',
      worker_model = Some ''deepseek/deepseek-v3.2'',
      zdr_enabled = Some True,
      preferred_providers = Some [''Together''],
      cost_limits = Some [''daily_usd'' \<mapsto> daily, ''monthly_usd'' \<mapsto> monthly]\<rparr>"

definition example_args :: arguments where
  "example_args =
     \<lparr>str_fields = [''task_description'' \<mapsto> ''hello'', ''language'' \<mapsto> ''python''],
      focus_areas = None\<rparr>"

text \<open>The oversized inputs of the validation tests: \<open>"x" * n\<close>.\<close>

definition example_text :: "nat \<Rightarrow> string" where
  "example_text n = replicate n (CHR ''x'')"

text \<open>
  Upstream bodies. In \<open>example_body\<close> the message content is the JSON object \<open>{}\<close>:
  it has no \<open>code\<close> field. \<open>malformed_body\<close> is the body of the test
  \<open>test_call_malformed_json\<close>: its content is not JSON. \<open>empty_choices_body\<close> has
  an empty list of choices, and the body \<open>{}\<close> has none. \<open>example_loads\<close> is
  \<open>json.loads\<close> on the texts that occur (these bodies and the content \<open>{}\<close>) and
  rejects every other text, the content \<open>not valid json\<close> among them.
\<close>

definition example_body :: string where
  \<open>example_body =
     ''{"choices": [{"message": {"content": "{}"}}], "usage": {"prompt_tokens": 100, "completion_tokens": 50}}''\<close>

definition malformed_body :: string where
  \<open>malformed_body = ''{"choices": [{"message": {"content": "not valid json"}}]}''\<close>

definition empty_choices_body :: string where
  \<open>empty_choices_body = ''{"choices": []}''\<close>

definition example_loads :: "string \<Rightarrow> string + json" where
  "example_loads s =
     (if s = example_body then
        Inr (JObj [(''choices'', JArr [JObj [(''message'', JObj [(''content'', JStr ''{}'')])]]),
                   (''usage'', JObj [(''prompt_tokens'', JNum 100), (''completion_tokens'', JNum 50)])])
      else if s = malformed_body then
        Inr (JObj [(''choices'',
                    JArr [JObj [(''message'', JObj [(''content'', JStr ''not valid json'')])]])])
      else if s = empty_choices_body then Inr (JObj [(''choices'', JArr [])])
      else if s = ''{}'' then Inr (JObj [])
      else Inl ''Expecting value: line 1 column 1 (char 0)'')"

text \<open>
  The world in which the upstream answers every request with status 200 and the given
  body, at a fixed time, with the store refusing the INSERT or not.
\<close>

definition example_env :: "string \<Rightarrow> bool \<Rightarrow> env" where
  "example_env body store_down =
     \<lparr>post = (\<lambda>request. Response 200 body), loads = example_loads,
      dumps = (\<lambda>args. []), now = 1700000100, utc_now = 1700000100,
      insert_fails = store_down\<rparr>"

section \<open>Aggregation lemmas\<close>

text \<open>Summing the groups of the report gives the sum, and the count, of the selected rows.\<close>

lemma sum_list_insort_key:
  fixes g :: "'a \<Rightarrow> 'b::comm_monoid_add"
  shows "sum_list (map g (insort_key h x xs)) = g x + sum_list (map g xs)"
  by (induction xs) (simp_all add: add.left_commute)

lemma sum_list_sort_key:
  fixes g :: "'a \<Rightarrow> 'b::comm_monoid_add"
  shows "sum_list (map g (sort_key h xs)) = sum_list (map g xs)"
  by (induction xs) (simp_all add: sum_list_insort_key)

lemma sum_list_if_absent:
  fixes c :: "'b::comm_monoid_add"
  shows "k0 \<notin> set ks \<Longrightarrow> sum_list (map (\<lambda>k. if k0 = k then c else 0) ks) = 0"
  by (induction ks) auto

lemma sum_list_if_present:
  fixes c :: "'b::comm_monoid_add"
  shows "distinct ks \<Longrightarrow> k0 \<in> set ks \<Longrightarrow> sum_list (map (\<lambda>k. if k0 = k then c else 0) ks) = c"
  by (induction ks) (auto simp: sum_list_if_absent)

lemma sum_list_groups:
  fixes f :: "'a \<Rightarrow> 'b::comm_monoid_add"
  shows "distinct ks \<Longrightarrow> key ` set xs \<subseteq> set ks \<Longrightarrow>
    sum_list (map (\<lambda>k. sum_list (map f (filter (\<lambda>r. key r = k) xs))) ks) = sum_list (map f xs)"
proof (induction xs)
  case Nil
  then show ?case by simp
next
  case (Cons x xs)
  have "sum_list (map (\<lambda>k. sum_list (map f (filter (\<lambda>r. key r = k) (x # xs)))) ks)
      = sum_list (map (\<lambda>k. (if key x = k then f x else 0) + sum_list (map f (filter (\<lambda>r. key r = k) xs))) ks)"
    by (rule arg_cong[where f=sum_list]) (auto intro!: map_cong)
  also have "\<dots> = sum_list (map (\<lambda>k. if key x = k then f x else 0) ks)
      + sum_list (map (\<lambda>k. sum_list (map f (filter (\<lambda>r. key r = k) xs))) ks)"
    by (simp add: sum_list_addf)
  also have "\<dots> = f x + sum_list (map f xs)"
    using Cons by (simp add: sum_list_if_present)
  finally show ?case by simp
qed

lemma group_rows_cost:
  "sum_list (map b_cost (group_rows sel)) = sum_list (map cost_usd sel)"
  unfolding group_rows_def
  using sum_list_groups[of "remdups (map group_key sel)" group_key sel cost_usd]
  by (simp add: o_def)

lemma sum_list_ones: "sum_list (map (\<lambda>_. Suc 0) xs) = length xs"
  by (induction xs) simp_all

lemma group_rows_requests:
  "sum_list (map b_requests (group_rows sel)) = length sel"
  unfolding group_rows_def
  using sum_list_groups[of "remdups (map group_key sel)" group_key sel "\<lambda>_. Suc 0"]
  by (simp add: o_def sum_list_ones)

lemma query_rows_cost:
  "sum_list (map b_cost (query_rows rows start tf)) = sum_list (map cost_usd (selected rows start tf))"
  by (simp add: query_rows_def sum_list_sort_key group_rows_cost)

lemma query_rows_requests:
  "sum_list (map b_requests (query_rows rows start tf)) = length (selected rows start tf)"
  by (simp add: query_rows_def sum_list_sort_key group_rows_requests)


lemma get_report_totals:
  assumes "period \<in> set VALID_PERIODS"
  shows "\<exists>rep. get_report rows t period tf = Inr rep \<and>
           total_requests rep = length (selected rows (start_date t period) tf) \<and>
           total_cost_usd rep =
             py_round (sum_list (map cost_usd (selected rows (start_date t period) tf))) 6"
  using assms by (simp add: get_report_def Let_def query_rows_cost query_rows_requests)

lemma check_cost_limit_spend:
  assumes "period \<in> set VALID_PERIODS"
  shows "check_cost_limit rows t period bound =
           Inr (py_round (sum_list (map cost_usd (selected rows (start_date t period) None))) 6 < bound)"
proof -
  from get_report_totals[OF assms, of rows t None] obtain rep where
    "get_report rows t period None = Inr rep"
    "total_cost_usd rep = py_round (sum_list (map cost_usd (selected rows (start_date t period) None))) 6"
    by blast
  then show ?thesis by (simp add: check_cost_limit_def)
qed



lemma today_valid: "''today'' \<in> set VALID_PERIODS"
  by (simp add: VALID_PERIODS_def)

lemma month_valid: "''month'' \<in> set VALID_PERIODS"
  by (simp add: VALID_PERIODS_def)


section \<open>The admission check\<close>




section \<open>The all-time report\<close>





section \<open>Admission at the broker\<close>

lemma example_limits:
  "daily_limit (example_secrets d m) = d" "monthly_limit (example_secrets d m) = m"
  by (simp_all add: daily_limit_def monthly_limit_def example_secrets_def)



lemma check_cost_limit_returns:
  "period \<in> set VALID_PERIODS \<Longrightarrow> \<exists>b. check_cost_limit rows t period bound = Inr b"
  by (simp add: check_cost_limit_spend)





section \<open>The cost of a call\<close>




section \<open>Input validation\<close>

lemma show_code_limit: "show_nat MAX_CODE_LENGTH = ''100000''"
  by (simp add: show_nat.simps MAX_CODE_LENGTH_def)

lemma show_description_limit: "show_nat MAX_DESCRIPTION_LENGTH = ''10000''"
  by (simp add: show_nat.simps MAX_DESCRIPTION_LENGTH_def)

lemma check_lengths_step:
  "check_lengths args limit (key # keys) =
     (case str_fields args key of
        None \<Rightarrow> check_lengths args limit keys
      | Some v \<Rightarrow>
          if limit < length v
          then Inl (ValueError (key @ '' exceeds maximum length of '' @ show_nat limit @ '' characters''))
          else check_lengths args limit keys)"
  by (cases "str_fields args key") (auto simp: Let_def)

lemma check_lengths_error:
  "check_lengths args limit keys = Inl err \<Longrightarrow>
     \<exists>k v. k \<in> set keys \<and> str_fields args k = Some v \<and> limit < length v \<and>
       err = ValueError (k @ '' exceeds maximum length of '' @ show_nat limit @ '' characters'')"
proof (induction keys)
  case Nil
  then show ?case by simp
next
  case (Cons key keys)
  note step = check_lengths_step[of args limit key keys]
  show ?case
  proof (cases "str_fields args key")
    case None
    with Cons.prems step have "check_lengths args limit keys = Inl err"
      by (simp del: check_lengths.simps)
    from Cons.IH[OF this] show ?thesis
      by (simp del: check_lengths.simps) blast
  next
    case (Some v)
    show ?thesis
    proof (cases "limit < length v")
      case True
      with Some Cons.prems step have
        "err = ValueError (key @ '' exceeds maximum length of '' @ show_nat limit @ '' characters'')"
        by (simp del: check_lengths.simps)
      with Some True show ?thesis
        by (intro exI[of _ key] exI[of _ v]) simp
    next
      case False
      with Some Cons.prems step have "check_lengths args limit keys = Inl err"
        by (simp del: check_lengths.simps)
      from Cons.IH[OF this] show ?thesis
        by (simp del: check_lengths.simps) blast
    qed
  qed
qed

lemma check_lengths_passed:
  "check_lengths args limit keys = Inr u \<Longrightarrow> k \<in> set keys \<Longrightarrow> str_fields args k = Some v
     \<Longrightarrow> \<not> limit < length v"
proof (induction keys)
  case Nil
  then show ?case by simp
next
  case (Cons key keys)
  note step = check_lengths_step[of args limit key keys]
  show ?case
  proof (cases "k = key")
    case True
    with Cons.prems step show ?thesis
      by (cases "limit < length v") (simp_all del: check_lengths.simps)
  next
    case False
    with Cons.prems have k: "k \<in> set keys" by simp
    have "check_lengths args limit keys = Inr u"
      using Cons.prems(1) step
      by (cases "str_fields args key") (simp_all del: check_lengths.simps split: if_splits)
    from Cons.IH[OF this k Cons.prems(3)] show ?thesis .
  qed
qed

lemma validate_inputs_oversized:
  assumes "(\<exists>k\<in>set [''code'', ''original_code'', ''context''].
              \<exists>v. str_fields args k = Some v \<and> 100000 < length v) \<or>
           (\<exists>k\<in>set [''task_description'', ''change_request''].
              \<exists>v. str_fields args k = Some v \<and> 10000 < length v)"
  shows "\<exists>k v msg. str_fields args k = Some v \<and>
           (k \<in> set [''code'', ''original_code'', ''context''] \<and> 100000 < length v \<and>
              msg = k @ '' exceeds maximum length of 100000 characters'' \<or>
            k \<in> set [''task_description'', ''change_request''] \<and> 10000 < length v \<and>
              msg = k @ '' exceeds maximum length of 10000 characters'') \<and>
           validate_inputs args tool = Inl (ValueError msg)"
proof (cases "check_lengths args MAX_CODE_LENGTH [''code'', ''original_code'', ''context'']")
  case (Inl err)
  have bad: "validate_inputs args tool = Inl err"
    unfolding validate_inputs_def by (simp only: Inl sum.case)
  from check_lengths_error[OF Inl] obtain k v where
    k: "k \<in> set [''code'', ''original_code'', ''context'']" "str_fields args k = Some v"
    "MAX_CODE_LENGTH < length v"
    "err = ValueError (k @ '' exceeds maximum length of '' @ show_nat MAX_CODE_LENGTH @ '' characters'')"
    by blast
  have "err = ValueError (k @ '' exceeds maximum length of 100000 characters'')"
    using k(4) by (simp add: show_code_limit show_description_limit)
  moreover have "100000 < length v"
    using k(3) by (simp add: MAX_CODE_LENGTH_def)
  ultimately show ?thesis
    using bad k(1) k(2) by blast
next
  case (Inr u)
  have bad: "validate_inputs args tool =
      check_lengths args MAX_DESCRIPTION_LENGTH [''task_description'', ''change_request'']"
    unfolding validate_inputs_def by (simp only: Inr sum.case)
  have no_code: "\<not> (\<exists>k\<in>set [''code'', ''original_code'', ''context''].
              \<exists>v. str_fields args k = Some v \<and> 100000 < length v)"
    using check_lengths_passed[OF Inr] unfolding MAX_CODE_LENGTH_def by blast
  with assms obtain k0 v0 where k0: "k0 \<in> set [''task_description'', ''change_request'']"
    "str_fields args k0 = Some v0" "10000 < length v0"
    by blast
  show ?thesis
  proof (cases "check_lengths args MAX_DESCRIPTION_LENGTH [''task_description'', ''change_request'']")
    case (Inl err)
    from check_lengths_error[OF Inl] obtain k v where
      k: "k \<in> set [''task_description'', ''change_request'']" "str_fields args k = Some v"
      "MAX_DESCRIPTION_LENGTH < length v"
      "err = ValueError (k @ '' exceeds maximum length of '' @ show_nat MAX_DESCRIPTION_LENGTH @ '' characters'')"
      by blast
    have "err = ValueError (k @ '' exceeds maximum length of 10000 characters'')"
      using k(4) by (simp add: show_code_limit show_description_limit)
    moreover have "10000 < length v"
      using k(3) by (simp add: MAX_DESCRIPTION_LENGTH_def)
    moreover have "validate_inputs args tool = Inl err"
      using bad Inl by simp
    ultimately show ?thesis
      using k(1) k(2) by blast
  next
    case (Inr u2)
    from check_lengths_passed[OF Inr k0(1) k0(2)] k0(3) show ?thesis
      by (simp add: MAX_DESCRIPTION_LENGTH_def)
  qed
qed

lemma call_rejected:
  "validate_inputs args tool = Inl err \<Longrightarrow> call e c args tool sent = (Inl err, sent)"
  by (simp add: call_def)

lemma broker_reports_caught:
  assumes "check_cost_limit (db st) (now e) ''today'' (daily_limit s) = Inr True"
    and "check_cost_limit (db st) (now e) ''month'' (monthly_limit s) = Inr True"
    and "call e c args tool (posts st) = (Inl err, sent)"
    and "caught_message err = Some m"
  shows "handle_deepseek_call e s c st tool args = (Inr (ErrorPayload m), st\<lparr>posts := sent\<rparr>)"
  using assms by (simp add: handle_deepseek_call_def)

lemma broker_outcomes_on_rejection:
  assumes "call e c args tool (posts st) = (Inl (ValueError m), posts st)"
  shows "handle_deepseek_call e s c st tool args = (Inr (ErrorPayload m), st) \<or>
         handle_deepseek_call e s c st tool args =
           (Inr (LimitPayload ''Daily cost limit exceeded'' (daily_limit s)), st) \<or>
         handle_deepseek_call e s c st tool args =
           (Inr (LimitPayload ''Monthly cost limit exceeded'' (monthly_limit s)), st)"
proof -
  obtain d where d: "check_cost_limit (db st) (now e) ''today'' (daily_limit s) = Inr d"
    using check_cost_limit_returns[OF today_valid] by blast
  obtain mo where mo: "check_cost_limit (db st) (now e) ''month'' (monthly_limit s) = Inr mo"
    using check_cost_limit_returns[OF month_valid] by blast
  show ?thesis
    using d mo assms by (cases d; cases mo) (simp_all add: handle_deepseek_call_def)
qed

lemma length_example_text: "length (example_text n) = n"
  by (simp add: example_text_def)

lemma empty_ledger_admits:
  "0 < bound \<Longrightarrow> period \<in> set VALID_PERIODS \<Longrightarrow> check_cost_limit [] t period bound = Inr True"
  by (simp add: check_cost_limit_spend selected_def py_round_def)

text \<open>
  C7: when one of \<open>code\<close>, \<open>original_code\<close>, \<open>context\<close> is longer than 100000
  characters, or one of \<open>task_description\<close>, \<open>change_request\<close> longer than 10000, the
  client's call raises a ValueError whose message names such a field and its limit, and
  posts nothing. The broker then leaves its state unchanged (no upstream request, no
  ledger record): it answers with that message as an error payload when admission is
  granted, and with a limit denial otherwise.
\<close>

theorem oversized_input_rejected:
  assumes "(\<exists>k\<in>set [''code'', ''original_code'', ''context''].
              \<exists>v. str_fields args k = Some v \<and> 100000 < length v) \<or>
           (\<exists>k\<in>set [''task_description'', ''change_request''].
              \<exists>v. str_fields args k = Some v \<and> 10000 < length v)"
  shows "\<exists>k v msg. str_fields args k = Some v \<and>
           (k \<in> set [''code'', ''original_code'', ''context''] \<and> 100000 < length v \<and>
              msg = k @ '' exceeds maximum length of 100000 characters'' \<or>
            k \<in> set [''task_description'', ''change_request''] \<and> 10000 < length v \<and>
              msg = k @ '' exceeds maximum length of 10000 characters'') \<and>
           call e c args tool sent = (Inl (ValueError msg), sent) \<and>
           (handle_deepseek_call e s c st tool args = (Inr (ErrorPayload msg), st) \<or>
            handle_deepseek_call e s c st tool args =
              (Inr (LimitPayload ''Daily cost limit exceeded'' (daily_limit s)), st) \<or>
            handle_deepseek_call e s c st tool args =
              (Inr (LimitPayload ''Monthly cost limit exceeded'' (monthly_limit s)), st)) \<and>
           (check_cost_limit (db st) (now e) ''today'' (daily_limit s) = Inr True \<and>
            check_cost_limit (db st) (now e) ''month'' (monthly_limit s) = Inr True \<longrightarrow>
              handle_deepseek_call e s c st tool args = (Inr (ErrorPayload msg), st))"
proof -
  from validate_inputs_oversized[OF assms, of tool] obtain k v msg where
    kv: "str_fields args k = Some v"
      "k \<in> set [''code'', ''original_code'', ''context''] \<and> 100000 < length v \<and>
              msg = k @ '' exceeds maximum length of 100000 characters'' \<or>
       k \<in> set [''task_description'', ''change_request''] \<and> 10000 < length v \<and>
              msg = k @ '' exceeds maximum length of 10000 characters''"
    and bad: "validate_inputs args tool = Inl (ValueError msg)"
    by blast
  have c1: "call e c args tool sent = (Inl (ValueError msg), sent)"
    using bad by (rule call_rejected)
  have c2: "call e c args tool (posts st) = (Inl (ValueError msg), posts st)"
    using bad by (rule call_rejected)
  have b1: "handle_deepseek_call e s c st tool args = (Inr (ErrorPayload msg), st) \<or>
            handle_deepseek_call e s c st tool args =
              (Inr (LimitPayload ''Daily cost limit exceeded'' (daily_limit s)), st) \<or>
            handle_deepseek_call e s c st tool args =
              (Inr (LimitPayload ''Monthly cost limit exceeded'' (monthly_limit s)), st)"
    using c2 by (rule broker_outcomes_on_rejection)
  have b2: "check_cost_limit (db st) (now e) ''today'' (daily_limit s) = Inr True \<and>
            check_cost_limit (db st) (now e) ''month'' (monthly_limit s) = Inr True \<longrightarrow>
              handle_deepseek_call e s c st tool args = (Inr (ErrorPayload msg), st)"
    using c2 by (auto simp: handle_deepseek_call_def)
  from kv c1 b1 b2 show ?thesis
    by (intro exI[of _ k] exI[of _ v] exI[of _ msg]) simp
qed

theorem oversized_input_rejected_witness:
  "str_fields \<lparr>str_fields = [''code'' \<mapsto> example_text 100001], focus_areas = None\<rparr> ''code''
     = Some (example_text 100001) \<and>
   100000 < length (example_text 100001) \<and>
   call (example_env example_body False) example_client
     \<lparr>str_fields = [''code'' \<mapsto> example_text 100001], focus_areas = None\<rparr> ''review_code'' []
     = (Inl (ValueError ''code exceeds maximum length of 100000 characters''), []) \<and>
   handle_deepseek_call (example_env example_body False) (example_secrets 10 50) example_client
     \<lparr>db = [], posts = []\<rparr> ''review_code''
     \<lparr>str_fields = [''code'' \<mapsto> example_text 100001], focus_areas = None\<rparr>
     = (Inr (ErrorPayload ''code exceeds maximum length of 100000 characters''),
        \<lparr>db = [], posts = []\<rparr>)"
proof -
  let ?args = "\<lparr>str_fields = [''code'' \<mapsto> example_text 100001], focus_areas = None\<rparr>"
  let ?e = "example_env example_body False"
  let ?s = "example_secrets 10 50"
  let ?st = "\<lparr>db = [], posts = []\<rparr>"
  have len: "100000 < length (example_text 100001)"
    by (simp add: length_example_text)
  have h: "(\<exists>k\<in>set [''code'', ''original_code'', ''context''].
              \<exists>v. str_fields ?args k = Some v \<and> 100000 < length v) \<or>
           (\<exists>k\<in>set [''task_description'', ''change_request''].
              \<exists>v. str_fields ?args k = Some v \<and> 10000 < length v)"
    using len by simp
  have d: "check_cost_limit (db ?st) (now ?e) ''today'' (daily_limit ?s) = Inr True"
    by (simp add: example_limits empty_ledger_admits today_valid)
  have m: "check_cost_limit (db ?st) (now ?e) ''month'' (monthly_limit ?s) = Inr True"
    by (simp add: example_limits empty_ledger_admits month_valid)
  from oversized_input_rejected[OF h, of ?e example_client "''review_code''" "[]" ?s ?st]
  obtain k v msg where
    kv: "str_fields ?args k = Some v"
    and form: "k \<in> set [''code'', ''original_code'', ''context''] \<and> 100000 < length v \<and>
              msg = k @ '' exceeds maximum length of 100000 characters'' \<or>
            k \<in> set [''task_description'', ''change_request''] \<and> 10000 < length v \<and>
              msg = k @ '' exceeds maximum length of 10000 characters''"
    and c: "call ?e example_client ?args ''review_code'' [] = (Inl (ValueError msg), [])"
    and b: "check_cost_limit (db ?st) (now ?e) ''today'' (daily_limit ?s) = Inr True \<and>
            check_cost_limit (db ?st) (now ?e) ''month'' (monthly_limit ?s) = Inr True \<longrightarrow>
              handle_deepseek_call ?e ?s example_client ?st ''review_code'' ?args
                = (Inr (ErrorPayload msg), ?st)"
    by blast
  have k: "k = ''code''"
    using kv by (simp split: if_splits)
  with form have msg: "msg = ''code exceeds maximum length of 100000 characters''"
    by simp
  from b d m have "handle_deepseek_call ?e ?s example_client ?st ''review_code'' ?args
                = (Inr (ErrorPayload msg), ?st)"
    by blast
  with c msg len show ?thesis by simp
qed

section \<open>The cost report query\<close>

text \<open>
  C10: when the arguments of a cost-report call have no \<open>period\<close>, the broker does not
  fail: it answers with the report of the window \<open>today\<close> (for the given tool filter),
  although the schema of \<open>get_cost_report\<close> lists \<open>period\<close> as required.
\<close>

theorem omitted_period_defaults_to_today:
  assumes "str_fields args ''period'' = None"
  shows "\<exists>rep. get_report (db st) (now e) ''today'' (str_fields args ''tool'') = Inr rep \<and>
           handle_cost_report e st args = Inr (ReportPayload rep) \<and>
           handle_tool_call e s c st ''get_cost_report'' args = (Inr (ReportPayload rep), st) \<and>
           t_name (build_tool_list ! 3) = ''get_cost_report'' \<and>
           t_required (build_tool_list ! 3) = [''period'']"
proof -
  from get_report_totals[OF today_valid, of "db st" "now e" "str_fields args ''tool''"]
  obtain rep where rep: "get_report (db st) (now e) ''today'' (str_fields args ''tool'') = Inr rep"
    by blast
  have p: "get_or args ''period'' ''today'' = ''today''"
    using assms by (simp add: get_or_def)
  have r: "handle_cost_report e st args = Inr (ReportPayload rep)"
    by (simp add: handle_cost_report_def Let_def p rep)
  have t: "handle_tool_call e s c st ''get_cost_report'' args = (Inr (ReportPayload rep), st)"
    by (simp add: handle_tool_call_def r)
  have "t_name (build_tool_list ! 3) = ''get_cost_report'' \<and>
        t_required (build_tool_list ! 3) = [''period'']"
    by (simp add: build_tool_list_def)
  with rep r t show ?thesis by blast
qed

theorem omitted_period_defaults_to_today_witness:
  "str_fields \<lparr>str_fields = Map.empty, focus_areas = None\<rparr> ''period'' = None \<and>
   handle_tool_call (example_env example_body False) (example_secrets 10 50) example_client
     \<lparr>db = [\<lparr>row_id = 1, timestamp = 1700000000, tool_name = ''generate_code'',
              cost_usd = 1 / 100, input_tokens = JNum 1000, output_tokens = JNum 500,
              file_path = None\<rparr>,
            \<lparr>row_id = 2, timestamp = 1699000000, tool_name = ''edit_code'',
              cost_usd = 5 / 1000, input_tokens = JNum 300, output_tokens = JNum 150,
              file_path = None\<rparr>],
      posts = []\<rparr> ''get_cost_report'' \<lparr>str_fields = Map.empty, focus_areas = None\<rparr>
   = (Inr (ReportPayload
        \<lparr>total_requests = 1, total_cost_usd = 1 / 100,
         breakdown = [\<lparr>b_date = 19675, b_tool = ''generate_code'', b_requests = 1,
                       b_cost = 1 / 100\<rparr>]\<rparr>),
      \<lparr>db = [\<lparr>row_id = 1, timestamp = 1700000000, tool_name = ''generate_code'',
              cost_usd = 1 / 100, input_tokens = JNum 1000, output_tokens = JNum 500,
              file_path = None\<rparr>,
            \<lparr>row_id = 2, timestamp = 1699000000, tool_name = ''edit_code'',
              cost_usd = 5 / 1000, input_tokens = JNum 300, output_tokens = JNum 150,
              file_path = None\<rparr>],
       posts = []\<rparr>)"
proof -
  let ?args = "\<lparr>str_fields = Map.empty, focus_areas = None\<rparr>"
  let ?rows = "[\<lparr>row_id = 1, timestamp = 1700000000, tool_name = ''generate_code'',
              cost_usd = 1 / 100, input_tokens = JNum 1000, output_tokens = JNum 500,
              file_path = None\<rparr>,
            \<lparr>row_id = 2, timestamp = 1699000000, tool_name = ''edit_code'',
              cost_usd = 5 / 1000, input_tokens = JNum 300, output_tokens = JNum 150,
              file_path = None\<rparr>]"
  let ?st = "\<lparr>db = ?rows, posts = []\<rparr>"
  let ?e = "example_env example_body False"
  have h: "str_fields ?args ''period'' = None" by simp
  have today: "get_report ?rows 1700000100 ''today'' None
    = Inr \<lparr>total_requests = 1, total_cost_usd = 1 / 100,
         breakdown = [\<lparr>b_date = 19675, b_tool = ''generate_code'', b_requests = 1,
                       b_cost = 1 / 100\<rparr>]\<rparr>"
    by (simp add: get_report_def query_rows_def group_rows_def selected_def
        group_key_def date_of_def start_date_def VALID_PERIODS_def py_round_def Let_def)
  have n: "now ?e = 1700000100" by (simp add: example_env_def)
  from omitted_period_defaults_to_today[OF h, of ?st ?e "example_secrets 10 50" example_client]
  obtain rep where
    "get_report (db ?st) (now ?e) ''today'' (str_fields ?args ''tool'') = Inr rep"
    "handle_tool_call ?e (example_secrets 10 50) example_client ?st ''get_cost_report'' ?args
       = (Inr (ReportPayload rep), ?st)"
    by blast
  with today n h show ?thesis by simp
qed

text \<open>
  C6: for the unrecognised window \<open>decade\<close>, \<open>get_report\<close> raises the invalid-period
  ValueError before touching the rows, whatever they are; \<open>_handle_cost_report\<close> has no
  handler for it, so the exception leaves \<open>_handle_tool_call\<close> instead of becoming an
  error payload (the generate/edit/review path does catch ValueError).
\<close>

theorem invalid_period_escapes_broker:
  "get_report rows t ''decade'' tool_filter = Inl (ValueError (invalid_period_message ''decade'')) \<and>
   handle_cost_report e st \<lparr>str_fields = [''period'' \<mapsto> ''decade''], focus_areas = None\<rparr>
     = Inl (ValueError (invalid_period_message ''decade'')) \<and>
   handle_tool_call e s c st ''get_cost_report''
       \<lparr>str_fields = [''period'' \<mapsto> ''decade''], focus_areas = None\<rparr>
     = (Inl (ValueError (invalid_period_message ''decade'')), st) \<and>
   invalid_period_message ''decade''
     = ''Invalid period '' @ [CHR 0x27] @ ''decade'' @ [CHR 0x27] @
       ''. Must be one of: today, week, month, all''"
  by (simp add: handle_tool_call_def handle_cost_report_def get_or_def get_report_def
      VALID_PERIODS_def invalid_period_message_def)

section \<open>The upstream response\<close>

lemma call_success_posts_once:
  assumes "call e c args tool sent = (Inr r, sent')"
  shows "\<exists>request. sent' = sent @ [request]"
proof (cases "validate_inputs args tool")
  case (Inl err)
  with assms show ?thesis by (simp add: call_def)
next
  case (Inr u)
  show ?thesis
  proof (cases "build_user_prompt (dumps e) args tool")
    case (Inl err)
    with Inr assms show ?thesis by (simp add: call_def)
  next
    case (Inr user_prompt)
    with \<open>validate_inputs args tool = Inr u\<close> assms show ?thesis
      by (auto simp: call_def Let_def split: http_outcome.splits if_splits)
  qed
qed

lemma call_answered:
  assumes "validate_inputs args tool = Inr ()"
    and "build_user_prompt (dumps e) args tool = Inr user_prompt"
    and "post e = (\<lambda>request. Response status body)"
    and "200 \<le> status" and "status \<le> 299"
  shows "fst (call e c args tool sent) = parse_response (loads e) body"
  using assms by (simp add: call_def Let_def)

lemma example_call:
  "fst (call (example_env example_body down) example_client example_args ''generate_code'' sent)
     = Inr \<lparr>r_code = JStr [], r_explanation = JStr [], r_suggestions = JArr [],
            r_cost_usd = 44 / 1000000, r_tokens_input = JNum 100, r_tokens_output = JNum 50\<rparr>"
proof -
  have v: "validate_inputs example_args ''generate_code'' = Inr ()"
    by (simp add: validate_inputs_def example_args_def MAX_CODE_LENGTH_def MAX_DESCRIPTION_LENGTH_def)
  have u: "build_user_prompt (dumps (example_env example_body down)) example_args ''generate_code''
      = Inr (py_join nl [''Task: hello'', ''Language: python''])"
    by (simp add: build_user_prompt_def example_args_def get_or_def truthy_def)
  have p: "post (example_env example_body down) = (\<lambda>request. Response 200 example_body)"
    by (simp add: example_env_def)
  have l: "loads (example_env example_body down) = example_loads"
    by (simp add: example_env_def)
  have "parse_response example_loads example_body
      = Inr \<lparr>r_code = JStr [], r_explanation = JStr [], r_suggestions = JArr [],
            r_cost_usd = 44 / 1000000, r_tokens_input = JNum 100, r_tokens_output = JNum 50\<rparr>"
    by (simp add: parse_response_def read_content_def raw_content_of_def calculate_cost_def
        example_loads_def example_body_def malformed_body_def empty_choices_body_def py_round_def Let_def)
  with call_answered[OF v u p, of example_client sent] l show ?thesis by simp
qed

lemma parse_unparseable:
  "lds body = Inr data \<Longrightarrow> read_content lds data = Inl err \<Longrightarrow> malformed err \<Longrightarrow>
     parse_response lds body = Inl (RuntimeError ''DeepSeek returned an unparseable response'')"
  by (simp add: parse_response_def)

lemma read_content_raw_error:
  "raw_content_of data = Inl err \<Longrightarrow> read_content lds data = Inl err"
  by (simp add: read_content_def)

lemma read_content_not_json:
  "raw_content_of data = Inr (JStr s) \<Longrightarrow> lds s = Inl msg \<Longrightarrow>
     read_content lds data = Inl (JSONDecodeError msg)"
  by (simp add: read_content_def)

lemma read_content_decoded:
  "raw_content_of data = Inr (JStr s) \<Longrightarrow> lds s = Inr content \<Longrightarrow>
     read_content lds data = Inr content"
  by (simp add: read_content_def)

lemma raw_missing_choices:
  "map_of kvs ''choices'' = None \<Longrightarrow> raw_content_of (JObj kvs) = Inl (KeyError ''choices'')"
  by (simp add: raw_content_of_def)

lemma raw_empty_choices:
  "map_of kvs ''choices'' = Some (JArr []) \<Longrightarrow> raw_content_of (JObj kvs) = Inl IndexError"
  by (simp add: raw_content_of_def)

lemma calculate_cost_dict:
  "calculate_cost usage = Inr cost \<Longrightarrow> \<exists>kvs. usage = JObj kvs"
  by (cases usage) (simp_all add: calculate_cost_def)

lemma parse_missing_code:
  assumes "lds body = Inr data"
    and "read_content lds data = Inr (JObj members)"
    and "map_of members ''code'' = None"
    and "dict_get data ''usage'' (JObj []) = Inr usage"
    and "calculate_cost usage = Inr cost"
  shows "\<exists>r. parse_response lds body = Inr r \<and> r_code r = JStr [] \<and> r_cost_usd r = cost"
proof -
  from calculate_cost_dict[OF assms(5)] obtain kvs where "usage = JObj kvs" by blast
  with assms show ?thesis
    by (simp add: parse_response_def)
qed

text \<open>
  C5, as stated, fails for a missing \<open>code\<close> field: the upstream answers with status 200
  and a message content that is the JSON object \<open>{}\<close>, and the call returns a result
  (with the empty string as code) instead of raising.
\<close>

theorem missing_code_accepted_counterexample:
  "example_loads example_body =
     Inr (JObj [(''choices'', JArr [JObj [(''message'', JObj [(''content'', JStr ''{}'')])]]),
                (''usage'', JObj [(''prompt_tokens'', JNum 100), (''completion_tokens'', JNum 50)])]) \<and>
   example_loads ''{}'' = Inr (JObj []) \<and>
   fst (call (example_env example_body False) example_client example_args ''generate_code'' [])
     = Inr \<lparr>r_code = JStr [], r_explanation = JStr [], r_suggestions = JArr [],
            r_cost_usd = 44 / 1000000, r_tokens_input = JNum 100, r_tokens_output = JNum 50\<rparr>"
  using example_call[of False "[]"]
  by (simp add: example_loads_def example_body_def malformed_body_def empty_choices_body_def)

text \<open>
  C5, amended: for an upstream answer with a 2xx status whose body decodes to JSON, the
  call raises the unparseable-response RuntimeError when
  \<open>data["choices"][0]["message"]["content"]\<close> raises KeyError or IndexError (a missing
  key, an empty list of choices) or when the content string is not JSON; when the content
  decodes to an object without \<open>code\<close> (and the usage block gives a cost), the call
  returns a result whose code is the empty string.
\<close>

theorem response_shape_handling:
  assumes "validate_inputs args tool = Inr ()"
    and "build_user_prompt (dumps e) args tool = Inr user_prompt"
    and "post e = (\<lambda>request. Response status body)"
    and "200 \<le> status" and "status \<le> 299"
    and "loads e body = Inr data"
  shows
   "(raw_content_of data = Inl err \<and> malformed err \<longrightarrow>
       fst (call e c args tool sent)
         = Inl (RuntimeError ''DeepSeek returned an unparseable response'')) \<and>
    (data = JObj kvs \<and> map_of kvs ''choices'' = None \<longrightarrow>
       fst (call e c args tool sent)
         = Inl (RuntimeError ''DeepSeek returned an unparseable response'')) \<and>
    (data = JObj kvs \<and> map_of kvs ''choices'' = Some (JArr []) \<longrightarrow>
       fst (call e c args tool sent)
         = Inl (RuntimeError ''DeepSeek returned an unparseable response'')) \<and>
    (raw_content_of data = Inr (JStr s) \<and> loads e s = Inl msg \<longrightarrow>
       fst (call e c args tool sent)
         = Inl (RuntimeError ''DeepSeek returned an unparseable response'')) \<and>
    (raw_content_of data = Inr (JStr s) \<and> loads e s = Inr (JObj members) \<and>
     map_of members ''code'' = None \<and>
     dict_get data ''usage'' (JObj []) = Inr usage \<and> calculate_cost usage = Inr cost \<longrightarrow>
       (\<exists>r. fst (call e c args tool sent) = Inr r \<and> r_code r = JStr [] \<and> r_cost_usd r = cost))"
proof -
  have fst_call: "fst (call e c args tool sent) = parse_response (loads e) body"
    using assms(1-5) by (rule call_answered)
  have 1: "raw_content_of data = Inl err \<and> malformed err \<longrightarrow>
       parse_response (loads e) body
         = Inl (RuntimeError ''DeepSeek returned an unparseable response'')"
    using parse_unparseable[of "loads e" body data err] assms(6)
    by (simp add: read_content_raw_error)
  have 2: "data = JObj kvs \<and> map_of kvs ''choices'' = None \<longrightarrow>
       parse_response (loads e) body
         = Inl (RuntimeError ''DeepSeek returned an unparseable response'')"
  proof
    assume a: "data = JObj kvs \<and> map_of kvs ''choices'' = None"
    then have "read_content (loads e) data = Inl (KeyError ''choices'')"
      by (simp add: read_content_raw_error raw_missing_choices)
    from parse_unparseable[of "loads e" body data, OF assms(6) this] show "parse_response (loads e) body
         = Inl (RuntimeError ''DeepSeek returned an unparseable response'')"
      by simp
  qed
  have 3: "data = JObj kvs \<and> map_of kvs ''choices'' = Some (JArr []) \<longrightarrow>
       parse_response (loads e) body
         = Inl (RuntimeError ''DeepSeek returned an unparseable response'')"
  proof
    assume a: "data = JObj kvs \<and> map_of kvs ''choices'' = Some (JArr [])"
    then have "read_content (loads e) data = Inl IndexError"
      by (simp add: read_content_raw_error raw_empty_choices)
    from parse_unparseable[of "loads e" body data, OF assms(6) this] show "parse_response (loads e) body
         = Inl (RuntimeError ''DeepSeek returned an unparseable response'')"
      by simp
  qed
  have 4: "raw_content_of data = Inr (JStr s) \<and> loads e s = Inl msg \<longrightarrow>
       parse_response (loads e) body
         = Inl (RuntimeError ''DeepSeek returned an unparseable response'')"
  proof
    assume a: "raw_content_of data = Inr (JStr s) \<and> loads e s = Inl msg"
    then have "read_content (loads e) data = Inl (JSONDecodeError msg)"
      by (simp add: read_content_not_json)
    from parse_unparseable[of "loads e" body data, OF assms(6) this] show "parse_response (loads e) body
         = Inl (RuntimeError ''DeepSeek returned an unparseable response'')"
      by simp
  qed
  have 5: "raw_content_of data = Inr (JStr s) \<and> loads e s = Inr (JObj members) \<and>
     map_of members ''code'' = None \<and>
     dict_get data ''usage'' (JObj []) = Inr usage \<and> calculate_cost usage = Inr cost \<longrightarrow>
       (\<exists>r. parse_response (loads e) body = Inr r \<and> r_code r = JStr [] \<and> r_cost_usd r = cost)"
  proof
    assume a: "raw_content_of data = Inr (JStr s) \<and> loads e s = Inr (JObj members) \<and>
     map_of members ''code'' = None \<and>
     dict_get data ''usage'' (JObj []) = Inr usage \<and> calculate_cost usage = Inr cost"
    then have "read_content (loads e) data = Inr (JObj members)"
      by (simp add: read_content_decoded)
    with a show "\<exists>r. parse_response (loads e) body = Inr r \<and> r_code r = JStr [] \<and> r_cost_usd r = cost"
      using parse_missing_code[of "loads e" body data members usage cost] assms(6) by simp
  qed
  from 1 2 3 4 5 show ?thesis
    unfolding fst_call by (intro conjI)
qed

theorem response_shape_handling_witness:
  "fst (call (example_env ''{}'' False) example_client example_args ''generate_code'' [])
     = Inl (RuntimeError ''DeepSeek returned an unparseable response'') \<and>
   fst (call (example_env empty_choices_body False) example_client example_args ''generate_code'' [])
     = Inl (RuntimeError ''DeepSeek returned an unparseable response'') \<and>
   fst (call (example_env malformed_body False) example_client example_args ''generate_code'' [])
     = Inl (RuntimeError ''DeepSeek returned an unparseable response'') \<and>
   (\<exists>r. fst (call (example_env example_body False) example_client example_args ''generate_code'' [])
           = Inr r \<and> r_code r = JStr [] \<and> r_cost_usd r = 44 / 1000000)"
proof -
  let ?user = "py_join nl [''Task: hello'', ''Language: python'']"
  let ?empty = "JObj []"
  let ?no_choice = "JObj [(''choices'', JArr [])]"
  let ?bad = "JObj [(''choices'',
                    JArr [JObj [(''message'', JObj [(''content'', JStr ''not valid json'')])]])]"
  let ?good = "JObj [(''choices'', JArr [JObj [(''message'', JObj [(''content'', JStr ''{}'')])]]),
                   (''usage'', JObj [(''prompt_tokens'', JNum 100), (''completion_tokens'', JNum 50)])]"
  have v: "validate_inputs example_args ''generate_code'' = Inr ()"
    by (simp add: validate_inputs_def example_args_def MAX_CODE_LENGTH_def MAX_DESCRIPTION_LENGTH_def)
  have u: "build_user_prompt (dumps (example_env b False)) example_args ''generate_code'' = Inr ?user"
    for b
    by (simp add: build_user_prompt_def example_args_def get_or_def truthy_def)
  have p: "post (example_env b False) = (\<lambda>request. Response 200 b)" for b
    by (simp add: example_env_def)
  have lo: "200 \<le> (200::nat)" and hi: "(200::nat) \<le> 299"
    by simp_all
  have l: "loads (example_env b False) = example_loads" for b
    by (simp add: example_env_def)
  have l1: "loads (example_env ''{}'' False) ''{}'' = Inr ?empty"
    by (simp add: l example_loads_def example_body_def malformed_body_def empty_choices_body_def)
  have l2: "loads (example_env empty_choices_body False) empty_choices_body = Inr ?no_choice"
    by (simp add: l example_loads_def example_body_def malformed_body_def empty_choices_body_def)
  have l3: "loads (example_env malformed_body False) malformed_body = Inr ?bad"
    by (simp add: l example_loads_def example_body_def malformed_body_def empty_choices_body_def)
  have l4: "loads (example_env example_body False) example_body = Inr ?good"
    by (simp add: l example_loads_def example_body_def malformed_body_def empty_choices_body_def)
  have n3: "loads (example_env malformed_body False) ''not valid json''
      = Inl ''Expecting value: line 1 column 1 (char 0)''"
    by (simp add: l example_loads_def example_body_def malformed_body_def empty_choices_body_def)
  have n4: "loads (example_env example_body False) ''{}'' = Inr (JObj [])"
    by (simp add: l example_loads_def example_body_def malformed_body_def empty_choices_body_def)
  have r1: "raw_content_of ?empty = Inl (KeyError ''choices'')"
    by (simp add: raw_content_of_def)
  have r3: "raw_content_of ?bad = Inr (JStr ''not valid json'')"
    by (simp add: raw_content_of_def)
  have r4: "raw_content_of ?good = Inr (JStr ''{}'')"
    by (simp add: raw_content_of_def)
  have c4: "calculate_cost (JObj [(''prompt_tokens'', JNum 100), (''completion_tokens'', JNum 50)])
      = Inr (44 / 1000000)"
    by (simp add: calculate_cost_def py_round_def Let_def)
  have a: "fst (call (example_env ''{}'' False) example_client example_args ''generate_code'' [])
     = Inl (RuntimeError ''DeepSeek returned an unparseable response'')"
    using response_shape_handling[where err = "KeyError ''choices''" and kvs = "[]"
        and c = example_client and sent = "[]", OF v u p lo hi l1] r1
    by simp
  have b: "fst (call (example_env empty_choices_body False) example_client example_args
              ''generate_code'' [])
     = Inl (RuntimeError ''DeepSeek returned an unparseable response'')"
    using response_shape_handling[where kvs = "[(''choices'', JArr [])]"
        and c = example_client and sent = "[]", OF v u p lo hi l2]
    by simp
  have c: "fst (call (example_env malformed_body False) example_client example_args
              ''generate_code'' [])
     = Inl (RuntimeError ''DeepSeek returned an unparseable response'')"
    using response_shape_handling[where s = "''not valid json''"
        and msg = "''Expecting value: line 1 column 1 (char 0)''"
        and c = example_client and sent = "[]", OF v u p lo hi l3] r3 n3
    by simp
  have d: "\<exists>r. fst (call (example_env example_body False) example_client example_args
                  ''generate_code'' [])
           = Inr r \<and> r_code r = JStr [] \<and> r_cost_usd r = 44 / 1000000"
    using response_shape_handling[where s = "''{}''" and members = "[]"
        and usage = "JObj [(''prompt_tokens'', JNum 100), (''completion_tokens'', JNum 50)]"
        and cost = "44 / 1000000"
        and c = example_client and sent = "[]", OF v u p lo hi l4] r4 n4 c4
    by simp
  from a b c d show ?thesis by (intro conjI)
qed

section \<open>Failure of the ledger append\<close>

lemma append_failure:
  assumes "check_cost_limit (db st) (now e) ''today'' (daily_limit s) = Inr True"
    and "check_cost_limit (db st) (now e) ''month'' (monthly_limit s) = Inr True"
    and "call e c args tool (posts st) = (Inr result, sent)"
    and "insert_fails e"
  shows "handle_deepseek_call e s c st tool args = (Inl OperationalError, st\<lparr>posts := sent\<rparr>)"
  using assms by (simp add: handle_deepseek_call_def log_request_def)

text \<open>
  C8, as stated, fails: with the upstream call succeeding and the store refusing the
  INSERT, \<open>handle_deepseek_call\<close> ends in the store's exception, not in an error payload.
\<close>

theorem append_failure_escapes_counterexample:
  "fst (call (example_env example_body True) example_client example_args ''generate_code'' [])
     = Inr \<lparr>r_code = JStr [], r_explanation = JStr [], r_suggestions = JArr [],
            r_cost_usd = 44 / 1000000, r_tokens_input = JNum 100, r_tokens_output = JNum 50\<rparr> \<and>
   insert_fails (example_env example_body True) \<and>
   fst (handle_deepseek_call (example_env example_body True) (example_secrets 10 50)
          example_client \<lparr>db = [], posts = []\<rparr> ''generate_code'' example_args)
     = Inl OperationalError"
proof -
  let ?e = "example_env example_body True"
  let ?s = "example_secrets 10 50"
  let ?st = "\<lparr>db = [], posts = []\<rparr>"
  obtain res sent where cs: "call ?e example_client example_args ''generate_code'' (posts ?st) = (res, sent)"
    by (cases "call ?e example_client example_args ''generate_code'' (posts ?st)") blast
  with example_call[of True "posts ?st"] have
    c: "call ?e example_client example_args ''generate_code'' (posts ?st)
      = (Inr \<lparr>r_code = JStr [], r_explanation = JStr [], r_suggestions = JArr [],
            r_cost_usd = 44 / 1000000, r_tokens_input = JNum 100, r_tokens_output = JNum 50\<rparr>, sent)"
    by simp
  have d: "check_cost_limit (db ?st) (now ?e) ''today'' (daily_limit ?s) = Inr True"
    by (simp add: example_limits empty_ledger_admits today_valid)
  have m: "check_cost_limit (db ?st) (now ?e) ''month'' (monthly_limit ?s) = Inr True"
    by (simp add: example_limits empty_ledger_admits month_valid)
  have f: "insert_fails ?e" by (simp add: example_env_def)
  from append_failure[OF d m c f] example_call[of True "[]"] f show ?thesis by simp
qed

text \<open>
  C8, amended: when admission is granted, the upstream call succeeds and the ledger
  append fails, the store's exception leaves the broker (no payload is returned, so the
  failure is not swallowed), the ledger is unchanged, and exactly one request was posted
  upstream (no second attempt).
\<close>

theorem append_failure_propagates:
  assumes "check_cost_limit (db st) (now e) ''today'' (daily_limit s) = Inr True"
    and "check_cost_limit (db st) (now e) ''month'' (monthly_limit s) = Inr True"
    and "call e c args tool (posts st) = (Inr result, sent)"
    and "insert_fails e"
  shows "handle_deepseek_call e s c st tool args = (Inl OperationalError, st\<lparr>posts := sent\<rparr>) \<and>
         db (snd (handle_deepseek_call e s c st tool args)) = db st \<and>
         (\<exists>request. posts (snd (handle_deepseek_call e s c st tool args)) = posts st @ [request])"
proof -
  have h: "handle_deepseek_call e s c st tool args = (Inl OperationalError, st\<lparr>posts := sent\<rparr>)"
    using assms by (rule append_failure)
  from call_success_posts_once[OF assms(3)] obtain request where "sent = posts st @ [request]"
    by blast
  with h show ?thesis by simp
qed

theorem append_failure_propagates_witness:
  "insert_fails (example_env example_body True) \<and>
   fst (call (example_env example_body True) example_client example_args ''generate_code'' [])
     = Inr \<lparr>r_code = JStr [], r_explanation = JStr [], r_suggestions = JArr [],
            r_cost_usd = 44 / 1000000, r_tokens_input = JNum 100, r_tokens_output = JNum 50\<rparr> \<and>
   fst (handle_deepseek_call (example_env example_body True) (example_secrets 10 50)
          example_client \<lparr>db = [], posts = []\<rparr> ''generate_code'' example_args)
     = Inl OperationalError \<and>
   db (snd (handle_deepseek_call (example_env example_body True) (example_secrets 10 50)
          example_client \<lparr>db = [], posts = []\<rparr> ''generate_code'' example_args)) = [] \<and>
   length (posts (snd (handle_deepseek_call (example_env example_body True) (example_secrets 10 50)
          example_client \<lparr>db = [], posts = []\<rparr> ''generate_code'' example_args))) = 1"
proof -
  let ?e = "example_env example_body True"
  let ?s = "example_secrets 10 50"
  let ?st = "\<lparr>db = [], posts = []\<rparr>"
  obtain res sent where cs: "call ?e example_client example_args ''generate_code'' (posts ?st) = (res, sent)"
    by (cases "call ?e example_client example_args ''generate_code'' (posts ?st)") blast
  with example_call[of True "posts ?st"] have
    c: "call ?e example_client example_args ''generate_code'' (posts ?st)
      = (Inr \<lparr>r_code = JStr [], r_explanation = JStr [], r_suggestions = JArr [],
            r_cost_usd = 44 / 1000000, r_tokens_input = JNum 100, r_tokens_output = JNum 50\<rparr>, sent)"
    by simp
  have d: "check_cost_limit (db ?st) (now ?e) ''today'' (daily_limit ?s) = Inr True"
    by (simp add: example_limits empty_ledger_admits today_valid)
  have m: "check_cost_limit (db ?st) (now ?e) ''month'' (monthly_limit ?s) = Inr True"
    by (simp add: example_limits empty_ledger_admits month_valid)
  have f: "insert_fails ?e" by (simp add: example_env_def)
  from append_failure_propagates[OF d m c f] obtain request where
    "handle_deepseek_call ?e ?s example_client ?st ''generate_code'' example_args
       = (Inl OperationalError, ?st\<lparr>posts := sent\<rparr>)"
    "db (snd (handle_deepseek_call ?e ?s example_client ?st ''generate_code'' example_args)) = db ?st"
    "posts (snd (handle_deepseek_call ?e ?s example_client ?st ''generate_code'' example_args))
       = posts ?st @ [request]"
    by blast
  with f example_call[of True "[]"] show ?thesis by simp
qed

end
